theory Spec2Isabelle
  imports Complex_Main "HOL-Library.Signed_Division"
begin

section \<open>Failures of the C++ code as values\<close>

text \<open>
  \<open>LengthError\<close>: \<open>std::vector\<close> is asked for a negative number of elements (the
  \<open>int\<close> is converted to a huge \<open>size_t\<close>, beyond \<open>max_size()\<close>).
  \<open>CheckFailed\<close>: a \<open>CHECK_LT\<close> / \<open>CHECK_GE\<close> macro or \<open>Log::Fatal\<close> stops the run.
  \<open>OutOfRange\<close>: an index outside the vector; undefined behaviour in C++, a failure here.
  \<open>NullPointer\<close>: a \<open>std::unique_ptr\<close> that holds nothing is dereferenced; undefined
  behaviour in C++, a failure here.
  \<open>NotFinite\<close>: a \<open>double\<close> operation yields an infinity, which the model of
  \<open>double\<close>s as real numbers does not hold; the C++ goes on with the infinity.
\<close>

datatype error = LengthError | CheckFailed | OutOfRange | NullPointer | NotFinite

section \<open>SampleNodeMapper (partition\_tracker.h)\<close>

text \<open>
  \<open>class SampleNodeMapper\<close>: for each tree a vector holding the node id of every
  observation. \<open>data_size_t\<close> and \<open>int\<close> are modelled as \<open>int\<close>.
\<close>

record SampleNodeMapper =
  tree_observation_indices :: "int list list"
  num_trees :: int
  num_observations :: int

definition NumTrees :: "SampleNodeMapper \<Rightarrow> int" where
  "NumTrees m = num_trees m"

definition NumObservations :: "SampleNodeMapper \<Rightarrow> int" where
  "NumObservations m = num_observations m"

text \<open>
  \<open>SampleNodeMapper(int num_trees, data_size_t num_observations)\<close>: the outer vector is
  resized to \<open>num_trees\<close>, then each inner vector to \<open>num_observations\<close>; \<open>resize\<close>
  value-initialises the new \<open>int\<close> elements, that is, to \<open>0\<close>.
\<close>

definition SampleNodeMapper_new :: "int \<Rightarrow> int \<Rightarrow> error + SampleNodeMapper" where
  "SampleNodeMapper_new n_trees n_observations =
     (if n_trees < 0 then Inl LengthError
      else if 0 < n_trees \<and> n_observations < 0 then Inl LengthError
      else Inr \<lparr> tree_observation_indices =
                   replicate (nat n_trees) (replicate (nat n_observations) 0),
                 num_trees = n_trees,
                 num_observations = n_observations \<rparr>)"

text \<open>
  \<open>SampleNodeMapper(SampleNodeMapper& other)\<close>: reads only \<open>other.NumTrees()\<close> and
  \<open>other.NumObservations()\<close> and resizes fresh vectors; \<open>other\<close>'s node ids are not read.
\<close>

definition SampleNodeMapper_copy :: "SampleNodeMapper \<Rightarrow> error + SampleNodeMapper" where
  "SampleNodeMapper_copy other =
     (let n_trees = NumTrees other; n_observations = NumObservations other in
      if n_trees < 0 then Inl LengthError
      else if 0 < n_trees \<and> n_observations < 0 then Inl LengthError
      else Inr \<lparr> tree_observation_indices =
                   replicate (nat n_trees) (replicate (nat n_observations) 0),
                 num_trees = n_trees,
                 num_observations = n_observations \<rparr>)"

text \<open>
  Whether \<open>tree_observation_indices_[tree_id][sample_id]\<close> is inside both vectors.
\<close>

definition in_vectors :: "SampleNodeMapper \<Rightarrow> int \<Rightarrow> int \<Rightarrow> bool" where
  "in_vectors m sample_id tree_id \<longleftrightarrow>
     0 \<le> tree_id \<and> nat tree_id < length (tree_observation_indices m) \<and>
     0 \<le> sample_id \<and> nat sample_id < length (tree_observation_indices m ! nat tree_id)"

definition GetNodeId :: "SampleNodeMapper \<Rightarrow> int \<Rightarrow> int \<Rightarrow> error + int" where
  "GetNodeId m sample_id tree_id =
     (if \<not> sample_id < num_observations m then Inl CheckFailed
      else if \<not> tree_id < num_trees m then Inl CheckFailed
      else if \<not> in_vectors m sample_id tree_id then Inl OutOfRange
      else Inr (tree_observation_indices m ! nat tree_id ! nat sample_id))"

definition SetNodeId :: "SampleNodeMapper \<Rightarrow> int \<Rightarrow> int \<Rightarrow> int \<Rightarrow> error + SampleNodeMapper" where
  "SetNodeId m sample_id tree_id node_id =
     (if \<not> sample_id < num_observations m then Inl CheckFailed
      else if \<not> tree_id < num_trees m then Inl CheckFailed
      else if \<not> in_vectors m sample_id tree_id then Inl OutOfRange
      else Inr (m \<lparr> tree_observation_indices :=
                     (tree_observation_indices m)
                       [nat tree_id := (tree_observation_indices m ! nat tree_id)
                                         [nat sample_id := node_id]] \<rparr>))"

text \<open>
  A sequence of \<open>SetNodeId\<close> calls \<open>(sample_id, tree_id, node_id)\<close>, stopping at the
  first failure.
\<close>

fun SetNodeIds :: "SampleNodeMapper \<Rightarrow> (int \<times> int \<times> int) list \<Rightarrow> error + SampleNodeMapper" where
  "SetNodeIds m [] = Inr m"
| "SetNodeIds m ((sample_id, tree_id, node_id) # calls) =
     (case SetNodeId m sample_id tree_id node_id of
        Inl e \<Rightarrow> Inl e
      | Inr m' \<Rightarrow> SetNodeIds m' calls)"

section \<open>Draw storage and the driver loop (interface.cpp)\<close>









section \<open>Marginal likelihoods and the variance samplers (sampler.h)\<close>

text \<open>
  Except in the section on the residual cycle, a \<open>double\<close> is modelled as a \<open>real\<close>
  with exact arithmetic: rounding, infinities and NaN are not modelled.
  \<open>std::log\<close> is \<open>ln\<close> (the two agree on positive arguments); \<open>std::sqrt\<close> is \<open>sqrt\<close>;
  \<open>std::pow(x, 2.0)\<close> is \<open>x\<^sup>2\<close>; \<open>M_PI\<close> is \<open>pi\<close>.

  The sufficient statistic of a constant-mean leaf, \<open>(n, sum_y, sum_y_squared)\<close>. Field
  \<open>n\<close> of the source is \<open>stat_n\<close> here.
\<close>

record LeafConstantGaussianSuffStat =
  stat_n :: int
  sum_y :: real
  sum_y_squared :: real

text \<open>
  \<open>NoSplitLogMarginalLikelihood(suff_stat, leaf_prior, global_variance)\<close>; \<open>tau\<close> is
  \<open>leaf_prior.GetPriorScale()\<close>.
\<close>

definition NoSplitLogMarginalLikelihood ::
  "LeafConstantGaussianSuffStat \<Rightarrow> real \<Rightarrow> real \<Rightarrow> real" where
  "NoSplitLogMarginalLikelihood suff_stat tau global_variance =
     (let sigma_sq = global_variance;
          n = real_of_int (stat_n suff_stat);
          sum_y = sum_y suff_stat;
          sum_y_squared = sum_y_squared suff_stat;
          log_ml =
            - (n * 0.5) * ln (2 * pi) - n * ln (sqrt sigma_sq) +
            0.5 * ln (sigma_sq / (sigma_sq + tau * n)) - (sum_y_squared / (2.0 * sigma_sq)) +
            ((tau * sum_y\<^sup>2) / (2 * sigma_sq * (sigma_sq + tau * n)))
      in log_ml)"

text \<open>
  \<open>SplitLogMarginalLikelihood(left_stat, right_stat, leaf_prior, global_variance)\<close>.
\<close>

definition SplitLogMarginalLikelihood ::
  "LeafConstantGaussianSuffStat \<Rightarrow> LeafConstantGaussianSuffStat \<Rightarrow> real \<Rightarrow> real \<Rightarrow> real" where
  "SplitLogMarginalLikelihood left_stat right_stat tau global_variance =
     (let sigma_sq = global_variance;
          left_n = real_of_int (stat_n left_stat);
          left_sum_y = sum_y left_stat;
          left_sum_y_squared = sum_y_squared left_stat;
          left_log_ml =
            - (left_n * 0.5) * ln (2 * pi) - left_n * ln (sqrt sigma_sq) +
            0.5 * ln (sigma_sq / (sigma_sq + tau * left_n)) -
            (left_sum_y_squared / (2.0 * sigma_sq)) +
            ((tau * left_sum_y\<^sup>2) / (2 * sigma_sq * (sigma_sq + tau * left_n)));
          right_n = real_of_int (stat_n right_stat);
          right_sum_y = sum_y right_stat;
          right_sum_y_squared = sum_y_squared right_stat;
          right_log_ml =
            - (right_n * 0.5) * ln (2 * pi) - right_n * ln (sqrt sigma_sq) +
            0.5 * ln (sigma_sq / (sigma_sq + tau * right_n)) -
            (right_sum_y_squared / (2.0 * sigma_sq)) +
            ((tau * right_sum_y\<^sup>2) / (2 * sigma_sq * (sigma_sq + tau * right_n)))
      in left_log_ml + right_log_ml)"

text \<open>
  \<open>IGVariancePrior\<close> with its two accessors.
\<close>

record IGVariancePrior =
  GetShape :: real
  GetScale :: real

text \<open>
  Modelled from the spec: \<open>TreeEnsemble::NumLeaves\<close> and \<open>TreeEnsemble::SumLeafSquared\<close>
  (ensemble.h is not among the sources). The spec speaks of the total number of leaves in
  the ensemble and of the sum of squared leaf values over all leaves in the ensemble. A
  forest is given here by the leaf values of each of its trees.
\<close>

type_synonym TreeEnsemble = "real list list"

definition NumLeaves :: "TreeEnsemble \<Rightarrow> int" where
  "NumLeaves forest = int (sum_list (map length forest))"

definition SumLeafSquared :: "TreeEnsemble \<Rightarrow> real" where
  "SumLeafSquared forest = sum_list (map (\<lambda>leaves. sum_list (map (\<lambda>mu. mu\<^sup>2) leaves)) forest)"

text \<open>
  \<open>GlobalHomoskedasticVarianceSampler::PosteriorShape\<close> and \<open>PosteriorScale\<close>, over the
  residual vector.
\<close>

definition Global_PosteriorShape :: "real list \<Rightarrow> IGVariancePrior \<Rightarrow> real" where
  "Global_PosteriorShape residual variance_prior =
     (let n = int (length residual); a = GetShape variance_prior in (a / 2.0) + real_of_int n)"

definition Global_PosteriorScale :: "real list \<Rightarrow> IGVariancePrior \<Rightarrow> real" where
  "Global_PosteriorScale residual variance_prior =
     (let a = GetShape variance_prior;
          b = GetScale variance_prior;
          sum_sq_resid = foldl (\<lambda>acc r. acc + r\<^sup>2) 0 residual
      in (a * b / 2.0) + sum_sq_resid)"

text \<open>
  \<open>LeafNodeHomoskedasticVarianceSampler::PosteriorShape\<close>, \<open>PosteriorScale\<close> and
  \<open>SampleVarianceParameter\<close>. In \<open>PosteriorScale\<close> the source reads \<open>a\<close> and does not
  use it. \<open>gamma_draw shape scale\<close> stands for one draw of
  \<open>std::gamma_distribution<double>(shape, scale)\<close>.
\<close>

definition Leaf_PosteriorShape :: "TreeEnsemble \<Rightarrow> IGVariancePrior \<Rightarrow> real" where
  "Leaf_PosteriorShape forest variance_prior =
     (let a = GetShape variance_prior; num_leaves = NumLeaves forest
      in (a / 2.0) + real_of_int num_leaves)"

definition Leaf_PosteriorScale :: "TreeEnsemble \<Rightarrow> IGVariancePrior \<Rightarrow> real" where
  "Leaf_PosteriorScale forest variance_prior =
     (let a = GetShape variance_prior;
          b = GetScale variance_prior;
          mu_sq = SumLeafSquared forest
      in (b / 2.0) + mu_sq)"

definition Leaf_SampleVarianceParameter ::
  "(real \<Rightarrow> real \<Rightarrow> real) \<Rightarrow> TreeEnsemble \<Rightarrow> IGVariancePrior \<Rightarrow> real" where
  "Leaf_SampleVarianceParameter gamma_draw forest variance_prior =
     (let ig_shape = Leaf_PosteriorShape forest variance_prior;
          ig_scape = Leaf_PosteriorScale forest variance_prior;
          gamma_scale = 1 / ig_scape
      in 1 / gamma_draw ig_shape gamma_scale)"

section \<open>The BART grow move (sampler.h)\<close>

text \<open>
  \<open>std::numeric_limits<double>::max()\<close>, the largest finite \<open>double\<close>, and
  \<open>std::numeric_limits<double>::min()\<close>, which for \<open>double\<close> is the smallest positive
  normal value, not the most negative one.
\<close>

definition numeric_limits_double_max :: real where
  "numeric_limits_double_max = (2 - 1 / 2 ^ 52) * 2 ^ 1023"

definition numeric_limits_double_min :: real where
  "numeric_limits_double_min = 1 / 2 ^ 1022"

text \<open>
  \<open>FeatureUnsortedPartition\<close>: the index array \<open>indices_\<close> and, for each node id, where
  its observations start (\<open>node_begin_\<close>, here \<open>node_begin_vec\<close>) and how many they are
  (\<open>node_length_\<close>, here \<open>node_length_vec\<close>).
\<close>

record FeatureUnsortedPartition =
  indices :: "int list"
  node_begin_vec :: "int list"
  node_length_vec :: "int list"

text \<open>
  Modelled from the spec: \<open>FeatureUnsortedPartition::NodeBegin\<close> and
  \<open>FeatureUnsortedPartition::NodeEnd\<close> (declared in partition\_tracker.h, their bodies are
  not among the sources). The spec keeps \<open>(begin(n), length(n))\<close> for each live node
  \<open>n\<close>, so that \<open>indices_[begin(n) .. begin(n) + length(n))\<close> lists the observations
  currently in \<open>n\<close>.
\<close>

definition NodeBegin :: "FeatureUnsortedPartition \<Rightarrow> int \<Rightarrow> int" where
  "NodeBegin tracker node_id = node_begin_vec tracker ! nat node_id"

definition NodeEnd :: "FeatureUnsortedPartition \<Rightarrow> int \<Rightarrow> int" where
  "NodeEnd tracker node_id =
     node_begin_vec tracker ! nat node_id + node_length_vec tracker ! nat node_id"

text \<open>
  The elements between the iterators \<open>indices_.begin() + node_begin\<close> and
  \<open>indices_.begin() + node_end\<close>, in order, for \<open>0 \<le> node_begin \<le> node_end\<close> within
  the vector (the C++ loop is undefined otherwise).
\<close>

definition iter_range :: "int list \<Rightarrow> int \<Rightarrow> int \<Rightarrow> int list" where
  "iter_range idx b e = take (nat (e - b)) (drop (nat b) idx)"

text \<open>
  The loop of \<open>VarSplitRange\<close> over the observations of the leaf.
  \<open>covariates idx col\<close> is \<open>data->covariates(idx, col)\<close>.
\<close>

fun VarSplitRange_loop ::
  "(int \<Rightarrow> int \<Rightarrow> real) \<Rightarrow> int \<Rightarrow> int list \<Rightarrow> real \<times> real \<Rightarrow> real \<times> real" where
  "VarSplitRange_loop covariates feature_split [] (var_min, var_max) = (var_min, var_max)"
| "VarSplitRange_loop covariates feature_split (idx # rest) (var_min, var_max) =
     (let feature_value = covariates idx feature_split in
      if feature_value < var_min
      then VarSplitRange_loop covariates feature_split rest (feature_value, var_max)
      else if feature_value > var_max
      then VarSplitRange_loop covariates feature_split rest (var_min, feature_value)
      else VarSplitRange_loop covariates feature_split rest (var_min, var_max))"

text \<open>
  \<open>VarSplitRange(data, tree, node_tracker, leaf_split, feature_split, var_min, var_max,
  tree_num)\<close>; \<open>tree_node_tracker\<close> is \<open>node_tracker->GetFeaturePartition(tree_num)\<close>.
  The result is the pair \<open>(var_min, var_max)\<close> written through the two references.
\<close>

definition VarSplitRange ::
  "(int \<Rightarrow> int \<Rightarrow> real) \<Rightarrow> FeatureUnsortedPartition \<Rightarrow> int \<Rightarrow> int \<Rightarrow> real \<times> real" where
  "VarSplitRange covariates tree_node_tracker leaf_split feature_split =
     (let var_min = numeric_limits_double_max;
          var_max = numeric_limits_double_min;
          node_begin = NodeBegin tree_node_tracker leaf_split;
          node_end = NodeEnd tree_node_tracker leaf_split
      in VarSplitRange_loop covariates feature_split
           (iter_range (indices tree_node_tracker) node_begin node_end) (var_min, var_max))"

text \<open>
  In \<open>GrowMCMC\<close>: \<open>double p_leaf = 1/num_leaves\<close> and
  \<open>double p_leaf_parent = 1/(num_leaf_parents+1)\<close>. Both operands of each division are
  \<open>int\<close>, so the division is the truncating integer division (\<open>sdiv\<close>) and its result
  is then converted to \<open>double\<close>. A tree has at least one leaf, so no divisor is \<open>0\<close>.
\<close>

definition GrowMCMC_p_leaf :: "int \<Rightarrow> real" where
  "GrowMCMC_p_leaf num_leaves = real_of_int (1 sdiv num_leaves)"

definition GrowMCMC_p_leaf_parent :: "int \<Rightarrow> real" where
  "GrowMCMC_p_leaf_parent num_leaf_parents = real_of_int (1 sdiv (num_leaf_parents + 1))"

text \<open>
  The collaborators of \<open>AddSplitToModel\<close> whose bodies are not among the sources, over a
  type \<open>'t\<close> of trees and a type \<open>'k\<close> of node trackers:
  \<open>Tree::ExpandNode(node, feature, value, default_left, left_value, right_value)\<close>,
  \<open>Tree::LeftChild\<close>, \<open>Tree::RightChild\<close>, \<open>Tree::GetLeaves\<close>,
  \<open>UnsortedNodeSampleTracker::PartitionTreeNode(data->covariates, tree_id, node, left,
  right, feature, value)\<close> (the covariates are fixed and left out) and, as
  \<open>UpdateNodeMapping\<close>,
  \<open>FeatureUnsortedPartition::UpdateObservationMapping(node_id, tree_id, mapper)\<close> of the
  partition of tree \<open>tree_id\<close>.
\<close>

record ('t, 'k) collaborators =
  ExpandNode :: "'t \<Rightarrow> int \<Rightarrow> int \<Rightarrow> real \<Rightarrow> bool \<Rightarrow> real \<Rightarrow> real \<Rightarrow> 't"
  LeftChild :: "'t \<Rightarrow> int \<Rightarrow> int"
  RightChild :: "'t \<Rightarrow> int \<Rightarrow> int"
  GetLeaves :: "'t \<Rightarrow> int list"
  PartitionTreeNode :: "'k \<Rightarrow> int \<Rightarrow> int \<Rightarrow> int \<Rightarrow> int \<Rightarrow> int \<Rightarrow> real \<Rightarrow> 'k"
  UpdateNodeMapping :: "'k \<Rightarrow> int \<Rightarrow> int \<Rightarrow> SampleNodeMapper \<Rightarrow> SampleNodeMapper"

text \<open>
  \<open>UnsortedNodeSampleTracker::UpdateObservationMapping(tree, tree_id, sample_node_mapper)\<close>
  (partition\_tracker.h): the map is updated for every leaf of the tree in turn.
\<close>

definition UpdateObservationMapping ::
  "('t, 'k) collaborators \<Rightarrow> 'k \<Rightarrow> 't \<Rightarrow> int \<Rightarrow> SampleNodeMapper \<Rightarrow> SampleNodeMapper" where
  "UpdateObservationMapping ops tracker tree_arg tree_id mapper =
     fold (\<lambda>leaf m. UpdateNodeMapping ops tracker leaf tree_id m) (GetLeaves ops tree_arg) mapper"

text \<open>
  What the BART sampler changes in a tree update: the tree, the node tracker and the
  observation-to-leaf map.
\<close>

record ('t, 'k) model_state =
  tree :: 't
  node_tracker :: 'k
  sample_node_mapper :: SampleNodeMapper

text \<open>
  \<open>AddSplitToModel(data, tree, node_tracker, sample_node_mapper, leaf_node, feature_split,
  split_value, tree_num)\<close>, the overload for the unsorted tracker. \<open>basis_dim\<close> is \<open>1\<close>, so
  the scalar branch runs, with \<open>0\<close> as the temporary value of both new leaves.
\<close>

definition AddSplitToModel ::
  "('t, 'k) collaborators \<Rightarrow> ('t, 'k) model_state \<Rightarrow> int \<Rightarrow> int \<Rightarrow> real \<Rightarrow> int \<Rightarrow>
   ('t, 'k) model_state" where
  "AddSplitToModel ops st leaf_node feature_split split_value tree_num =
     (let temp_leaf_value = 0;
          tree1 = ExpandNode ops (tree st) leaf_node feature_split split_value True
                    temp_leaf_value temp_leaf_value;
          left_node = LeftChild ops tree1 leaf_node;
          right_node = RightChild ops tree1 leaf_node;
          tracker1 = PartitionTreeNode ops (node_tracker st) tree_num leaf_node left_node
                       right_node feature_split split_value;
          mapper1 = UpdateObservationMapping ops tracker1 tree1 tree_num (sample_node_mapper st)
      in \<lparr> tree = tree1, node_tracker = tracker1, sample_node_mapper = mapper1 \<rparr>)"

text \<open>
  The end of \<open>GrowMCMC\<close>, from the comment \<open>// Threshold at 0\<close> on. \<open>log_mh_ratio\<close> is
  the ratio computed just before, \<open>log_acceptance_prob\<close> is \<open>std::log(mh_accept(gen))\<close>
  for the uniform draw on \<open>[0, 1)\<close>. The result is the flag \<open>accept\<close> and the state.
\<close>

definition GrowMCMC_threshold :: "real \<Rightarrow> real" where
  "GrowMCMC_threshold log_mh_ratio = (if log_mh_ratio > 1 then 1 else log_mh_ratio)"

definition GrowMCMC_accept ::
  "('t, 'k) collaborators \<Rightarrow> ('t, 'k) model_state \<Rightarrow> real \<Rightarrow> real \<Rightarrow> int \<Rightarrow> int \<Rightarrow> real \<Rightarrow> int \<Rightarrow>
   bool \<times> ('t, 'k) model_state" where
  "GrowMCMC_accept ops st log_mh_ratio log_acceptance_prob leaf_chosen var_chosen
       split_point_chosen tree_num =
     (let log_mh_ratio = GrowMCMC_threshold log_mh_ratio in
      if log_acceptance_prob \<le> log_mh_ratio
      then (True, AddSplitToModel ops st leaf_chosen var_chosen split_point_chosen tree_num)
      else (False, st))"

text \<open>
  The same step at the end of \<open>PruneMCMC\<close> thresholds at \<open>0\<close>.
\<close>

definition PruneMCMC_threshold :: "real \<Rightarrow> real" where
  "PruneMCMC_threshold log_mh_ratio = (if log_mh_ratio > 0 then 0 else log_mh_ratio)"

text \<open>
  A small instance of the collaborators, to run the grow move on: a tree is the list of
  its leaf ids, the children of node \<open>n\<close> being \<open>2 n + 1\<close> and \<open>2 n + 2\<close>, a tracker is the list of the splits \<open>(node, left, right)\<close> it has been told, and
  the map of a leaf is updated by writing the leaf id at the observation with the same
  number as the leaf.
\<close>

definition example_collaborators :: "(int list, (int \<times> int \<times> int) list) collaborators" where
  "example_collaborators =
     \<lparr> ExpandNode = (\<lambda>t node feature v default_left lv rv.
                        (2 * node + 1) # (2 * node + 2) # removeAll node t),
       LeftChild = (\<lambda>t node. 2 * node + 1),
       RightChild = (\<lambda>t node. 2 * node + 2),
       GetLeaves = (\<lambda>t. t),
       PartitionTreeNode = (\<lambda>k tree_id node l r feature v. (node, l, r) # k),
       UpdateNodeMapping = (\<lambda>k leaf tree_id m.
                      m \<lparr> tree_observation_indices :=
                            (tree_observation_indices m)
                              [nat tree_id := (tree_observation_indices m ! nat tree_id)
                                                [nat leaf := leaf]] \<rparr>) \<rparr>"

definition example_state :: "(int list, (int \<times> int \<times> int) list) model_state" where
  "example_state =
     \<lparr> tree = [0], node_tracker = [],
       sample_node_mapper = \<lparr> tree_observation_indices = [[0, 0, 0]],
                               num_trees = 1, num_observations = 3 \<rparr> \<rparr>"

text \<open>
  Three columns of covariates for \<open>VarSplitRange\<close>: constant \<open>5\<close>, constant \<open>0\<close>, and
  the values \<open>3, 1, 2\<close> at the rows \<open>0, 1, 2\<close>.
\<close>

definition column_of_fives :: "int \<Rightarrow> int \<Rightarrow> real" where
  "column_of_fives idx col = 5"

definition column_of_zeros :: "int \<Rightarrow> int \<Rightarrow> real" where
  "column_of_zeros idx col = 0"

definition column_3_1_2 :: "int \<Rightarrow> int \<Rightarrow> real" where
  "column_3_1_2 idx col = [3, 1, 2] ! nat idx"

section \<open>The order of the grow-from-root step (sampler.h)\<close>

text \<open>
  \<open>std::deque<node_t> split_queue_\<close> as a list whose head is the front of the deque.
\<close>

definition push_front :: "'a \<Rightarrow> 'a list \<Rightarrow> 'a list" where
  "push_front x queue = x # queue"

definition push_back :: "'a \<Rightarrow> 'a list \<Rightarrow> 'a list" where
  "push_back x queue = queue @ [x]"

definition kRoot :: int where
  "kRoot = 0"

text \<open>
  What \<open>GFRTreeSampler::AddSplitToModel\<close> does to the deque, in its last two statements:
  \<open>split_queue.push_front(right_node); split_queue.push_front(left_node);\<close>
\<close>

definition AddSplitToModel_queue :: "int \<Rightarrow> int \<Rightarrow> int list \<Rightarrow> int list" where
  "AddSplitToModel_queue left_node right_node split_queue =
     push_front left_node (push_front right_node split_queue)"

text \<open>
  The loop \<open>while (!split_queue_.empty())\<close> of \<open>GFRTreeSampler::SampleTree\<close>.
  \<open>sample node\<close> stands for the outcome of \<open>SampleSplitRule\<close> at \<open>node\<close>: \<open>None\<close> when
  "no split" is drawn, \<open>Some (left_node, right_node)\<close> when a split is drawn, with the ids
  of the two children that \<open>AddSplitToModel\<close> reads from the expanded tree. \<open>visited\<close> is
  not in the source: it lists the nodes in the order the loop took them from the deque.
  The loop need not end (the outcomes may split for ever), so the result is an option.
\<close>

partial_function (option) SampleTree_loop ::
  "(int \<Rightarrow> (int \<times> int) option) \<Rightarrow> int list \<Rightarrow> int list \<Rightarrow> int list option" where
  "SampleTree_loop sample split_queue visited =
     (case split_queue of
        [] \<Rightarrow> Some visited
      | curr_node_id # rest \<Rightarrow>
          (case sample curr_node_id of
             None \<Rightarrow> SampleTree_loop sample rest (visited @ [curr_node_id])
           | Some (left_node, right_node) \<Rightarrow>
               SampleTree_loop sample (AddSplitToModel_queue left_node right_node rest)
                 (visited @ [curr_node_id])))"

definition SampleTree :: "(int \<Rightarrow> (int \<times> int) option) \<Rightarrow> int list option" where
  "SampleTree sample = SampleTree_loop sample (push_back kRoot []) []"

text \<open>
  The loop as the claim words it, for comparison: the children of a split node are
  appended to the back of the queue, left child first.
\<close>

partial_function (option) breadth_first_loop ::
  "(int \<Rightarrow> (int \<times> int) option) \<Rightarrow> int list \<Rightarrow> int list \<Rightarrow> int list option" where
  "breadth_first_loop sample split_queue visited =
     (case split_queue of
        [] \<Rightarrow> Some visited
      | curr_node_id # rest \<Rightarrow>
          (case sample curr_node_id of
             None \<Rightarrow> breadth_first_loop sample rest (visited @ [curr_node_id])
           | Some (left_node, right_node) \<Rightarrow>
               breadth_first_loop sample (push_back right_node (push_back left_node rest))
                 (visited @ [curr_node_id])))"

definition breadth_first :: "(int \<Rightarrow> (int \<times> int) option) \<Rightarrow> int list option" where
  "breadth_first sample = breadth_first_loop sample (push_back kRoot []) []"

text \<open>
  The tree that a run of outcomes grows: a node that stayed a leaf, or a split node with
  its two subtrees, each labelled with its node id.
\<close>

datatype grown = Leaf int | Split int grown grown

fun root_id :: "grown \<Rightarrow> int" where
  "root_id (Leaf node) = node"
| "root_id (Split node l r) = node"

fun preorder :: "grown \<Rightarrow> int list" where
  "preorder (Leaf node) = [node]"
| "preorder (Split node l r) = node # preorder l @ preorder r"

fun num_nodes :: "grown \<Rightarrow> nat" where
  "num_nodes (Leaf node) = 1"
| "num_nodes (Split node l r) = 1 + num_nodes l + num_nodes r"

text \<open>
  The outcomes \<open>sample\<close> grow the tree \<open>t\<close>: "no split" at its leaves, and at each split
  node a split into the roots of its two subtrees.
\<close>

fun grows :: "(int \<Rightarrow> (int \<times> int) option) \<Rightarrow> grown \<Rightarrow> bool" where
  "grows sample (Leaf node) \<longleftrightarrow> sample node = None"
| "grows sample (Split node l r) \<longleftrightarrow>
     sample node = Some (root_id l, root_id r) \<and> grows sample l \<and> grows sample r"

text \<open>
  Outcomes to run the loop on: the root \<open>0\<close> is split into \<open>1\<close> and \<open>2\<close>, node \<open>1\<close> is
  split into \<open>3\<close> and \<open>4\<close>, every other node stays a leaf; and the tree they grow.
\<close>

definition example_outcomes :: "int \<Rightarrow> (int \<times> int) option" where
  "example_outcomes node =
     (if node = 0 then Some (1, 2) else if node = 1 then Some (3, 4) else None)"

definition example_grown :: grown where
  "example_grown = Split 0 (Split 1 (Leaf 3) (Leaf 4)) (Leaf 2)"

section \<open>Cutpoint enumeration of the grow-from-root step (sampler.h)\<close>


datatype FeatureType = kNumeric | kOrderedCategorical | kUnorderedCategorical














section \<open>The residual column and its add/subtract cycle (data.h, interface.cpp)\<close>

text \<open>
  In this section a \<open>double\<close> is a real number that binary64 can hold, and the result of
  an arithmetic operation is rounded as IEEE-754 does by default: to the nearest such
  number, a tie going to the one with the even significand. Signed zeros are not
  distinguished. Infinities and NaN are not held: an operation whose rounded result lies
  beyond the largest finite \<open>double\<close> yields \<open>NotFinite\<close> here, where the C++ goes on with
  an infinity.

  \<open>round_half_even y\<close> is the integer nearest to \<open>y\<close>, the even one on a tie.
\<close>

definition round_half_even :: "real \<Rightarrow> int" where
  "round_half_even y =
     (let f = \<lfloor>y\<rfloor> in
      if y - real_of_int f < 1 / 2 then f
      else if y - real_of_int f > 1 / 2 then f + 1
      else if even f then f else f + 1)"

text \<open>
  Rounding to binary64: the significand has \<open>53\<close> bits, so a value with
  \<open>2\<^sup>e \<le> |x| < 2\<^sup>e\<^sup>+\<^sup>1\<close> is rounded to a multiple of \<open>2\<^sup>e\<^sup>-\<^sup>5\<^sup>2\<close>; below \<open>2\<^sup>-\<^sup>1\<^sup>0\<^sup>2\<^sup>2\<close> (the
  subnormal range) the spacing stays \<open>2\<^sup>-\<^sup>1\<^sup>0\<^sup>7\<^sup>4\<close>.
\<close>

definition double_round :: "real \<Rightarrow> error + real" where
  "double_round x =
     (if x = 0 then Inr 0
      else
        let e = max \<lfloor>log 2 \<bar>x\<bar>\<rfloor> (- 1022);
            q = 2 powi (e - 52);
            y = real_of_int (round_half_even (x / q)) * q
        in if \<bar>y\<bar> > numeric_limits_double_max then Inl NotFinite else Inr y)"

text \<open>
  A real number is a \<open>double\<close> when rounding leaves it as it is.
\<close>

definition is_double :: "real \<Rightarrow> bool" where
  "is_double x \<longleftrightarrow> double_round x = Inr x"

text \<open>
  \<open>a + b\<close> and \<open>a - b\<close> on \<open>double\<close>s.
\<close>

definition double_add :: "real \<Rightarrow> real \<Rightarrow> error + real" where
  "double_add a b = double_round (a + b)"

definition double_sub :: "real \<Rightarrow> real \<Rightarrow> error + real" where
  "double_sub a b = double_round (a - b)"

text \<open>
  The fields of \<open>Dataset\<close> that the residual accessors use: the vector \<open>residuals_\<close> and
  \<open>num_outcome_\<close>.
\<close>

record Dataset =
  residuals :: "real list"
  num_outcome :: int

text \<open>
  \<open>residuals_[row*num_outcome_ + col]\<close> changed by \<open>op\<close>, the common shape of
  \<open>ResidualAdd\<close> and \<open>ResidualSubtract\<close>. An index outside the vector is undefined
  behaviour in C++.
\<close>

definition residual_update ::
  "(real \<Rightarrow> real \<Rightarrow> error + real) \<Rightarrow> Dataset \<Rightarrow> int \<Rightarrow> int \<Rightarrow> real \<Rightarrow> error + Dataset" where
  "residual_update op d row col val =
     (let i = row * num_outcome d + col in
      if 0 \<le> i \<and> nat i < length (residuals d)
      then (case op (residuals d ! nat i) val of
              Inl e \<Rightarrow> Inl e
            | Inr v \<Rightarrow> Inr (d \<lparr> residuals := (residuals d)[nat i := v] \<rparr>))
      else Inl OutOfRange)"

text \<open>
  \<open>Dataset::ResidualAdd(row, col, val)\<close>: \<open>residuals_[row*num_outcome_ + col] += val\<close>.
\<close>

definition ResidualAdd :: "Dataset \<Rightarrow> int \<Rightarrow> int \<Rightarrow> real \<Rightarrow> error + Dataset" where
  "ResidualAdd d row col val = residual_update double_add d row col val"

text \<open>
  \<open>Dataset::ResidualSubtract(row, col, val)\<close>: \<open>residuals_[row*num_outcome_ + col] -= val\<close>.
\<close>

definition ResidualSubtract :: "Dataset \<Rightarrow> int \<Rightarrow> int \<Rightarrow> real \<Rightarrow> error + Dataset" where
  "ResidualSubtract d row col val = residual_update double_sub d row col val"

text \<open>
  \<open>Dataset::ResidualValue(row)\<close>: \<open>residuals_[row]\<close>.
\<close>

definition ResidualValue :: "Dataset \<Rightarrow> int \<Rightarrow> error + real" where
  "ResidualValue d row =
     (if 0 \<le> row \<and> nat row < length (residuals d) then Inr (residuals d ! nat row)
      else Inl OutOfRange)"

text \<open>
  The two loops of the driver around the update of tree \<open>j\<close>,
  \<open>for (data_size_t k = 0; k < n; k++)\<close> with \<open>ResidualAdd(k, 0, prediction_val)\<close> before
  the tree is sampled and with \<open>ResidualSubtract(k, 0, prediction_val)\<close> after it.
  \<open>prediction k\<close> is \<open>tree->PredictFromNode(sample_node_mapper->GetNodeId(k, j))\<close>.
\<close>

fun residual_add_back :: "(int \<Rightarrow> real) \<Rightarrow> int list \<Rightarrow> Dataset \<Rightarrow> error + Dataset" where
  "residual_add_back prediction [] d = Inr d"
| "residual_add_back prediction (k # rest) d =
     (case ResidualAdd d k 0 (prediction k) of
        Inl e \<Rightarrow> Inl e
      | Inr d' \<Rightarrow> residual_add_back prediction rest d')"

fun residual_subtract_out :: "(int \<Rightarrow> real) \<Rightarrow> int list \<Rightarrow> Dataset \<Rightarrow> error + Dataset" where
  "residual_subtract_out prediction [] d = Inr d"
| "residual_subtract_out prediction (k # rest) d =
     (case ResidualSubtract d k 0 (prediction k) of
        Inl e \<Rightarrow> Inl e
      | Inr d' \<Rightarrow> residual_subtract_out prediction rest d')"

text \<open>
  The cycle of the driver for a tree that the sampler leaves as it was, with the same
  leaf for every observation: the prediction added back for row \<open>k\<close> is the prediction
  subtracted for row \<open>k\<close>. The samplers in between read the residual and do not write it.
  \<open>n\<close> is \<open>train_dataset_->NumObservations()\<close>.
\<close>

definition residual_cycle :: "(int \<Rightarrow> real) \<Rightarrow> nat \<Rightarrow> Dataset \<Rightarrow> error + Dataset" where
  "residual_cycle prediction n d =
     (case residual_add_back prediction (map int [0 ..< n]) d of
        Inl e \<Rightarrow> Inl e
      | Inr d' \<Rightarrow> residual_subtract_out prediction (map int [0 ..< n]) d')"

text \<open>
  A dataset of one row with residual \<open>1\<close>, and a tree that predicts \<open>2\<^sup>5\<^sup>3\<close> at every row.
\<close>

definition one_row_dataset :: Dataset where
  "one_row_dataset = \<lparr> residuals = [1], num_outcome = 1 \<rparr>"

definition large_prediction :: "int \<Rightarrow> real" where
  "large_prediction k = 2 ^ 53"

text \<open>
  A dataset of two rows with residuals \<open>1\<close> and \<open>3 / 2\<close>, and a tree that predicts \<open>2\<close> at
  every row.
\<close>

definition two_row_dataset :: Dataset where
  "two_row_dataset = \<lparr> residuals = [1, 3 / 2], num_outcome = 1 \<rparr>"

definition small_prediction :: "int \<Rightarrow> real" where
  "small_prediction k = 2"

section \<open>Properties of SampleNodeMapper\<close>

lemma SetNodeId_dims:
  "SetNodeId m s t v = Inr m' \<Longrightarrow>
     num_trees m' = num_trees m \<and> num_observations m' = num_observations m"
  by (auto simp: SetNodeId_def split: if_splits)

lemma SetNodeIds_dims:
  "SetNodeIds m calls = Inr m' \<Longrightarrow>
     num_trees m' = num_trees m \<and> num_observations m' = num_observations m"
proof (induction calls arbitrary: m)
  case Nil
  then show ?case by simp
next
  case (Cons c calls)
  obtain s t v where c: "c = (s, t, v)" by (cases c) auto
  from Cons.prems c obtain m1 where
    m1: "SetNodeId m s t v = Inr m1" and rest: "SetNodeIds m1 calls = Inr m'"
    by (auto split: sum.splits)
  from Cons.IH [OF rest] SetNodeId_dims [OF m1] show ?case by simp
qed

lemma SampleNodeMapper_new_dims:
  "SampleNodeMapper_new T N = Inr m \<Longrightarrow>
     num_trees m = T \<and> num_observations m = N \<and> 0 \<le> T \<and> (0 < T \<longrightarrow> 0 \<le> N)"
  by (auto simp: SampleNodeMapper_new_def split: if_splits)

lemma GetNodeId_fresh:
  assumes "0 \<le> t" "t < T" "0 \<le> s" "s < N"
  shows "GetNodeId \<lparr> tree_observation_indices = replicate (nat T) (replicate (nat N) 0),
                     num_trees = T, num_observations = N \<rparr> s t = Inr 0"
  using assms by (simp add: GetNodeId_def in_vectors_def)

text \<open>
  C10. Let \<open>m\<close> be a mapper built by the constructor and then changed by any sequence of
  \<open>SetNodeId\<close> calls. The copy constructor succeeds on \<open>m\<close> and yields a mapper with the
  same \<open>NumTrees\<close> and \<open>NumObservations\<close> in which \<open>GetNodeId\<close> is \<open>0\<close> for every tree
  and observation in range: the node ids of \<open>m\<close> are not copied. So wherever \<open>m\<close> holds a
  node id other than \<open>0\<close>, \<open>GetNodeId\<close> on the copy differs from \<open>GetNodeId\<close> on \<open>m\<close>.
\<close>

theorem SampleNodeMapper_copy_value_initialized:
  assumes "SampleNodeMapper_new T N = Inr m0"
    and "SetNodeIds m0 calls = Inr m"
  shows "\<exists>c. SampleNodeMapper_copy m = Inr c \<and>
             NumTrees c = NumTrees m \<and>
             NumObservations c = NumObservations m \<and>
             (\<forall>s t. 0 \<le> s \<and> s < N \<and> 0 \<le> t \<and> t < T \<longrightarrow> GetNodeId c s t = Inr 0) \<and>
             (\<forall>s t v. GetNodeId m s t = Inr v \<and> v \<noteq> 0 \<and> 0 \<le> s \<and> 0 \<le> t \<longrightarrow>
                        GetNodeId c s t \<noteq> GetNodeId m s t)"
proof -
  from SampleNodeMapper_new_dims [OF assms(1)] SetNodeIds_dims [OF assms(2)]
  have dims: "num_trees m = T" "num_observations m = N" "0 \<le> T" "0 < T \<longrightarrow> 0 \<le> N"
    by simp_all
  let ?c = "\<lparr> tree_observation_indices = replicate (nat T) (replicate (nat N) 0),
              num_trees = T, num_observations = N \<rparr>"
  have copy: "SampleNodeMapper_copy m = Inr ?c"
    using dims by (auto simp: SampleNodeMapper_copy_def NumTrees_def NumObservations_def Let_def)
  have zero: "GetNodeId ?c s t = Inr 0" if "0 \<le> s" "s < N" "0 \<le> t" "t < T" for s t
    using that by (simp add: GetNodeId_fresh)
  have differ: "GetNodeId ?c s t \<noteq> GetNodeId m s t"
    if "GetNodeId m s t = Inr v" "v \<noteq> 0" "0 \<le> s" "0 \<le> t" for s t v
  proof -
    from that(1) dims have "s < N" "t < T"
      by (auto simp: GetNodeId_def split: if_splits)
    with that zero [of s t] show ?thesis by simp
  qed
  show ?thesis
    using copy dims zero differ
    by (intro exI [of _ ?c]) (auto simp: NumTrees_def NumObservations_def)
qed

theorem SampleNodeMapper_copy_value_initialized_witness:
  "\<exists>m0 m c. SampleNodeMapper_new 2 3 = Inr m0 \<and>
            SetNodeIds m0 [(1, 0, 5), (2, 1, 7)] = Inr m \<and>
            SampleNodeMapper_copy m = Inr c \<and>
            NumTrees c = 2 \<and> NumObservations c = 3 \<and>
            GetNodeId m 1 0 = Inr 5 \<and> GetNodeId c 1 0 = Inr 0 \<and>
            GetNodeId c 1 0 \<noteq> GetNodeId m 1 0"
proof -
  let ?start = "\<lparr> tree_observation_indices = [[0, 0, 0], [0, 0, 0]],
               num_trees = 2, num_observations = 3 \<rparr>"
  let ?m = "\<lparr> tree_observation_indices = [[0, 5, 0], [0, 0, 7]],
              num_trees = 2, num_observations = 3 \<rparr>"
  have new: "SampleNodeMapper_new 2 3 = Inr ?start"
    by (simp add: SampleNodeMapper_new_def eval_nat_numeral)
  have sets: "SetNodeIds ?start [(1, 0, 5), (2, 1, 7)] = Inr ?m"
    by (simp add: SetNodeId_def in_vectors_def eval_nat_numeral)
  have get: "GetNodeId ?m 1 0 = Inr 5"
    by (simp add: GetNodeId_def in_vectors_def)
  from SampleNodeMapper_copy_value_initialized [OF new sets] obtain c where
    c: "SampleNodeMapper_copy ?m = Inr c" "NumTrees c = NumTrees ?m"
       "NumObservations c = NumObservations ?m"
       "\<forall>s t. 0 \<le> s \<and> s < 3 \<and> 0 \<le> t \<and> t < 2 \<longrightarrow> GetNodeId c s t = Inr 0"
       "\<forall>s t v. GetNodeId ?m s t = Inr v \<and> v \<noteq> 0 \<and> 0 \<le> s \<and> 0 \<le> t \<longrightarrow>
                  GetNodeId c s t \<noteq> GetNodeId ?m s t"
    by blast
  from c(4) have "GetNodeId c 1 0 = Inr 0" by simp
  moreover from c(5) get have "GetNodeId c 1 0 \<noteq> GetNodeId ?m 1 0" by simp
  ultimately show ?thesis
    using new sets get c(1,2,3)
    by (intro exI [of _ ?start] exI [of _ ?m] exI [of _ c])
       (simp add: NumTrees_def NumObservations_def)
qed

section \<open>Properties of the draw storage\<close>







section \<open>Properties of the marginal likelihoods and the variance samplers\<close>

text \<open>
  C6. For a constant-mean sufficient statistic \<open>S = (n, \<Sigma>r, \<Sigma>r\<^sup>2)\<close>, any leaf scale
  \<open>\<tau>\<close> and a variance \<open>\<sigma>\<^sup>2\<close> with \<open>\<sigma> > 0\<close>, \<open>NoSplitLogMarginalLikelihood\<close> is
  \<open>-(n/2) log(2\<pi>) - n log \<sigma> + (1/2) log(\<sigma>\<^sup>2 / (\<sigma>\<^sup>2 + \<tau> n)) - \<Sigma>r\<^sup>2 / (2 \<sigma>\<^sup>2)
   + \<tau> (\<Sigma>r)\<^sup>2 / (2 \<sigma>\<^sup>2 (\<sigma>\<^sup>2 + \<tau> n))\<close>,
  and \<open>SplitLogMarginalLikelihood\<close> of \<open>L\<close> and \<open>R\<close> is the sum of that expression at
  \<open>L\<close> and at \<open>R\<close>.
\<close>

theorem log_marginal_likelihood_formula:
  assumes "0 < sigma"
  shows "NoSplitLogMarginalLikelihood S tau (sigma\<^sup>2) =
           - (real_of_int (stat_n S) / 2) * ln (2 * pi) - real_of_int (stat_n S) * ln sigma +
           (1 / 2) * ln (sigma\<^sup>2 / (sigma\<^sup>2 + tau * real_of_int (stat_n S))) -
           sum_y_squared S / (2 * sigma\<^sup>2) +
           tau * (sum_y S)\<^sup>2 / (2 * sigma\<^sup>2 * (sigma\<^sup>2 + tau * real_of_int (stat_n S)))
         \<and>
         SplitLogMarginalLikelihood L R tau (sigma\<^sup>2) =
           (- (real_of_int (stat_n L) / 2) * ln (2 * pi) - real_of_int (stat_n L) * ln sigma +
            (1 / 2) * ln (sigma\<^sup>2 / (sigma\<^sup>2 + tau * real_of_int (stat_n L))) -
            sum_y_squared L / (2 * sigma\<^sup>2) +
            tau * (sum_y L)\<^sup>2 / (2 * sigma\<^sup>2 * (sigma\<^sup>2 + tau * real_of_int (stat_n L)))) +
           (- (real_of_int (stat_n R) / 2) * ln (2 * pi) - real_of_int (stat_n R) * ln sigma +
            (1 / 2) * ln (sigma\<^sup>2 / (sigma\<^sup>2 + tau * real_of_int (stat_n R))) -
            sum_y_squared R / (2 * sigma\<^sup>2) +
            tau * (sum_y R)\<^sup>2 / (2 * sigma\<^sup>2 * (sigma\<^sup>2 + tau * real_of_int (stat_n R))))"
proof -
  from assms have root: "sqrt (sigma\<^sup>2) = sigma" by simp
  show ?thesis
    unfolding NoSplitLogMarginalLikelihood_def SplitLogMarginalLikelihood_def Let_def root
    by simp
qed

theorem log_marginal_likelihood_formula_witness:
  "(0::real) < 1 \<and>
   NoSplitLogMarginalLikelihood \<lparr> stat_n = 2, sum_y = 3, sum_y_squared = 5 \<rparr> 1 (1\<^sup>2) =
     - ln (2 * pi) + (1 / 2) * ln (1 / 3) - 5 / 2 + 3 / 2"
proof -
  have h: "(0::real) < 1" by simp
  from log_marginal_likelihood_formula [OF h,
      of "\<lparr> stat_n = 2, sum_y = 3, sum_y_squared = 5 \<rparr>" 1]
  show ?thesis by simp
qed

text \<open>
  C7. The claim gives the posterior scale of the leaf-scale sampler as
  \<open>a b / 2 + \<Sigma> \<mu>\<^sup>2\<close>; the code returns \<open>b / 2 + \<Sigma> \<mu>\<^sup>2\<close>. For a prior with \<open>a = 4\<close>,
  \<open>b = 1\<close> and a forest of one tree with the single leaf value \<open>0\<close> the code returns
  \<open>1/2\<close> where the claim says \<open>2\<close>.
\<close>

theorem Leaf_PosteriorScale_drops_shape:
  "Leaf_PosteriorScale [[0]] \<lparr> GetShape = 4, GetScale = 1 \<rparr> = 1 / 2 \<and>
   Leaf_PosteriorScale [[0]] \<lparr> GetShape = 4, GetScale = 1 \<rparr>
     \<noteq> GetShape \<lparr> GetShape = 4, GetScale = 1 \<rparr> * GetScale \<lparr> GetShape = 4, GetScale = 1 \<rparr> / 2
        + SumLeafSquared [[0]]"
  by (simp add: Leaf_PosteriorScale_def SumLeafSquared_def)

text \<open>
  What the leaf-scale sampler does compute: the shape \<open>a / 2\<close> plus the total number of
  leaves, the scale \<open>b / 2\<close> plus the sum of squared leaf values, and the draw as the
  reciprocal of a gamma draw with the reciprocal scale. The sampler of the global variance
  is the one that uses \<open>a b / 2\<close>.
\<close>

lemma Leaf_sampler_computes:
  "Leaf_PosteriorShape forest prior = GetShape prior / 2 + real_of_int (NumLeaves forest)"
  "Leaf_PosteriorScale forest prior = GetScale prior / 2 + SumLeafSquared forest"
  "Leaf_SampleVarianceParameter gamma_draw forest prior =
     1 / gamma_draw (Leaf_PosteriorShape forest prior) (1 / Leaf_PosteriorScale forest prior)"
  by (simp_all add: Leaf_PosteriorShape_def Leaf_PosteriorScale_def
        Leaf_SampleVarianceParameter_def Let_def)

lemma Global_PosteriorScale_uses_shape:
  "Global_PosteriorScale [] prior = GetShape prior * GetScale prior / 2"
  by (simp add: Global_PosteriorScale_def)

section \<open>Properties of the BART grow move\<close>

text \<open>
  C2. The claim has \<open>VarSplitRange\<close> return the minimum and the maximum of the column
  over the leaf. The code starts \<open>var_max\<close> at the smallest positive \<open>double\<close> and
  updates it only in the \<open>else\<close> branch of the test that updates \<open>var_min\<close>. For a leaf
  with the single value \<open>5\<close> it returns \<open>var_min = 5\<close> and \<open>var_max = 2\<^sup>-\<^sup>1\<^sup>0\<^sup>2\<^sup>2\<close>, so
  \<open>var_max < var_min\<close>; for a leaf with the values \<open>3, 1, 2\<close> it returns \<open>var_max = 2\<close>;
  for a leaf with the two values \<open>0, 0\<close> it returns \<open>var_min = 0\<close> and
  \<open>var_max = 2\<^sup>-\<^sup>1\<^sup>0\<^sup>2\<^sup>2\<close>, which differ.
\<close>

theorem VarSplitRange_misses_max:
  "VarSplitRange column_of_fives
       \<lparr> indices = [0], node_begin_vec = [0], node_length_vec = [1] \<rparr> 0 0
     = (5, 1 / 2 ^ 1022) \<and>
   (1 / 2 ^ 1022 :: real) < 5 \<and>
   VarSplitRange column_3_1_2
       \<lparr> indices = [0, 1, 2], node_begin_vec = [0], node_length_vec = [3] \<rparr> 0 0
     = (1, 2) \<and>
   VarSplitRange column_of_zeros
       \<lparr> indices = [0, 1], node_begin_vec = [0], node_length_vec = [2] \<rparr> 0 0
     = (0, 1 / 2 ^ 1022)"
proof -
  have one: "VarSplitRange column_of_fives
       \<lparr> indices = [0], node_begin_vec = [0], node_length_vec = [1] \<rparr> 0 0 = (5, 1 / 2 ^ 1022)"
    by (simp add: VarSplitRange_def NodeBegin_def NodeEnd_def iter_range_def column_of_fives_def
          numeric_limits_double_max_def numeric_limits_double_min_def)
  have three: "VarSplitRange column_3_1_2
       \<lparr> indices = [0, 1, 2], node_begin_vec = [0], node_length_vec = [3] \<rparr> 0 0 = (1, 2)"
    by (simp add: VarSplitRange_def NodeBegin_def NodeEnd_def iter_range_def column_3_1_2_def
          numeric_limits_double_max_def numeric_limits_double_min_def eval_nat_numeral)
  have zeros: "VarSplitRange column_of_zeros
       \<lparr> indices = [0, 1], node_begin_vec = [0], node_length_vec = [2] \<rparr> 0 0
     = (0, 1 / 2 ^ 1022)"
    by (simp add: VarSplitRange_def NodeBegin_def NodeEnd_def iter_range_def column_of_zeros_def
          numeric_limits_double_max_def numeric_limits_double_min_def eval_nat_numeral)
  have small: "(1 / 2 ^ 1022 :: real) < 5" by simp
  from one three zeros small show ?thesis by blast
qed

text \<open>
  What the loop does get right: \<open>var_min\<close> is a lower bound of the values of the leaf.
\<close>

lemma VarSplitRange_loop_min:
  "VarSplitRange_loop covariates f idxs (lo, hi) = (lo', hi') \<Longrightarrow>
   lo' \<le> lo \<and> (\<forall>idx \<in> set idxs. lo' \<le> covariates idx f)"
proof (induction idxs arbitrary: lo hi)
  case Nil
  then show ?case by simp
next
  case (Cons idx rest)
  show ?case
  proof (cases "covariates idx f < lo")
    case True
    with Cons.prems have "VarSplitRange_loop covariates f rest (covariates idx f, hi) = (lo', hi')"
      by simp
    from Cons.IH [OF this] True show ?thesis by auto
  next
    case False
    then obtain hi1 where "VarSplitRange_loop covariates f rest (lo, hi1) = (lo', hi')"
      using Cons.prems by (auto simp: Let_def split: if_splits)
    from Cons.IH [OF this] False show ?thesis by auto
  qed
qed

text \<open>
  C3. The claim has \<open>P(old-leaf) = 1/num_leaves\<close> and
  \<open>P(new-leaf-parent) = 1/(num_leaf_parents+1)\<close> as real reciprocals. The code divides
  two \<open>int\<close>s: for a tree with two leaves and one leaf parent both are \<open>0\<close>, not \<open>1/2\<close>.
\<close>

theorem GrowMCMC_p_leaf_integer_division:
  "GrowMCMC_p_leaf 2 = 0 \<and> GrowMCMC_p_leaf 2 \<noteq> 1 / real_of_int 2 \<and>
   GrowMCMC_p_leaf_parent 1 = 0 \<and> GrowMCMC_p_leaf_parent 1 \<noteq> 1 / real_of_int (1 + 1)"
  by (simp add: GrowMCMC_p_leaf_def GrowMCMC_p_leaf_parent_def signed_divide_int_def)

text \<open>
  The two values over all trees: \<open>1\<close> for a tree that is a single leaf, \<open>0\<close> from two
  leaves (one leaf parent) on.
\<close>

lemma GrowMCMC_p_leaf_values:
  "GrowMCMC_p_leaf 1 = 1"
  "2 \<le> num_leaves \<Longrightarrow> GrowMCMC_p_leaf num_leaves = 0"
  "GrowMCMC_p_leaf_parent 0 = 1"
  "1 \<le> num_leaf_parents \<Longrightarrow> GrowMCMC_p_leaf_parent num_leaf_parents = 0"
  by (simp_all add: GrowMCMC_p_leaf_def GrowMCMC_p_leaf_parent_def signed_divide_int_def)

text \<open>
  C1, as stated: the proposal is accepted iff \<open>log U\<close> is strictly below the ratio clipped
  at \<open>0\<close>. The code accepts on equality as well: with \<open>log_mh_ratio = -1\<close> and
  \<open>log U = -1\<close> the split is accepted, and \<open>-1 < min(-1, 0)\<close> is false.
\<close>

theorem GrowMCMC_accepts_on_equality_counterexample:
  "fst (GrowMCMC_accept example_collaborators example_state (- 1) (- 1) 0 0 (1 / 2) 0) \<and>
   \<not> ((- 1 :: real) < min (- 1) 0)"
  by (simp add: GrowMCMC_accept_def GrowMCMC_threshold_def)

text \<open>
  The threshold itself: the grow move changes the ratio only above \<open>1\<close>, the prune move
  above \<open>0\<close>.
\<close>

lemma GrowMCMC_threshold_at_one:
  "GrowMCMC_threshold (1 / 2) = 1 / 2" "PruneMCMC_threshold (1 / 2) = 0"
  "GrowMCMC_threshold r = min r 1" "PruneMCMC_threshold r = min r 0"
  by (simp_all add: GrowMCMC_threshold_def PruneMCMC_threshold_def)

text \<open>
  C1, amended. For a uniform draw \<open>U\<close> in \<open>(0, 1)\<close> the grow proposal is accepted iff
  \<open>log U \<le> min(log_mh_ratio, 0)\<close>. On accept the split is committed: the tree is expanded
  at the chosen leaf, the node tracker partitions that leaf between the two new children,
  and the observation-to-leaf map is refreshed from the new tracker and tree. On reject
  nothing changes.
\<close>

theorem GrowMCMC_accept_rule:
  assumes "0 < U" and "U < 1"
  shows "GrowMCMC_accept ops st log_mh_ratio (ln U) leaf_chosen var_chosen split_point tree_num =
           (if ln U \<le> min log_mh_ratio 0
            then (True,
                  \<lparr> tree = ExpandNode ops (tree st) leaf_chosen var_chosen split_point True 0 0,
                    node_tracker =
                      PartitionTreeNode ops (node_tracker st) tree_num leaf_chosen
                        (LeftChild ops
                           (ExpandNode ops (tree st) leaf_chosen var_chosen split_point True 0 0)
                           leaf_chosen)
                        (RightChild ops
                           (ExpandNode ops (tree st) leaf_chosen var_chosen split_point True 0 0)
                           leaf_chosen)
                        var_chosen split_point,
                    sample_node_mapper =
                      UpdateObservationMapping ops
                        (PartitionTreeNode ops (node_tracker st) tree_num leaf_chosen
                           (LeftChild ops
                              (ExpandNode ops (tree st) leaf_chosen var_chosen split_point True 0 0)
                              leaf_chosen)
                           (RightChild ops
                              (ExpandNode ops (tree st) leaf_chosen var_chosen split_point True 0 0)
                              leaf_chosen)
                           var_chosen split_point)
                        (ExpandNode ops (tree st) leaf_chosen var_chosen split_point True 0 0)
                        tree_num (sample_node_mapper st) \<rparr>)
            else (False, st))"
proof -
  from assms have neg: "ln U < 0" by simp
  have test: "ln U \<le> GrowMCMC_threshold log_mh_ratio \<longleftrightarrow> ln U \<le> min log_mh_ratio 0"
    using neg by (auto simp: GrowMCMC_threshold_def)
  show ?thesis
    unfolding GrowMCMC_accept_def Let_def test
    by (simp add: AddSplitToModel_def Let_def)
qed

theorem GrowMCMC_accept_rule_witness:
  "(0::real) < 1 / 2 \<and> (1 / 2 :: real) < 1 \<and>
   GrowMCMC_accept example_collaborators example_state 3 (ln (1 / 2)) 0 0 (1 / 2) 0
   = (True,
      \<lparr> tree = [1, 2], node_tracker = [(0, 1, 2)],
        sample_node_mapper = \<lparr> tree_observation_indices = [[0, 1, 2]],
                                num_trees = 1, num_observations = 3 \<rparr> \<rparr>)"
proof -
  have h: "(0::real) < 1 / 2" "(1 / 2 :: real) < 1" by simp_all
  have le: "ln (1 / 2 :: real) \<le> min 3 0" by simp
  have run: "GrowMCMC_accept example_collaborators example_state 3 (ln (1 / 2)) 0 0 (1 / 2) 0
      = (True,
         \<lparr> tree = ExpandNode example_collaborators (tree example_state) 0 0 (1 / 2) True 0 0,
           node_tracker =
             PartitionTreeNode example_collaborators (node_tracker example_state) 0 0
               (LeftChild example_collaborators
                  (ExpandNode example_collaborators (tree example_state) 0 0 (1 / 2) True 0 0) 0)
               (RightChild example_collaborators
                  (ExpandNode example_collaborators (tree example_state) 0 0 (1 / 2) True 0 0) 0)
               0 (1 / 2),
           sample_node_mapper =
             UpdateObservationMapping example_collaborators
               (PartitionTreeNode example_collaborators (node_tracker example_state) 0 0
                  (LeftChild example_collaborators
                     (ExpandNode example_collaborators (tree example_state) 0 0 (1 / 2) True 0 0) 0)
                  (RightChild example_collaborators
                     (ExpandNode example_collaborators (tree example_state) 0 0 (1 / 2) True 0 0) 0)
                  0 (1 / 2))
               (ExpandNode example_collaborators (tree example_state) 0 0 (1 / 2) True 0 0)
               0 (sample_node_mapper example_state) \<rparr>)"
    using le GrowMCMC_accept_rule [OF h, of example_collaborators example_state 3 0 0 "1 / 2" 0]
    by (simp only: if_True)
  show ?thesis
    unfolding run using h
    by (simp add: example_collaborators_def example_state_def UpdateObservationMapping_def
          eval_nat_numeral)
qed

section \<open>Properties of the order of the grow-from-root step\<close>

lemma SampleTree_loop_Nil: "SampleTree_loop sample [] visited = Some visited"
  by (subst SampleTree_loop.simps) simp

lemma SampleTree_loop_no_split:
  "sample node = None \<Longrightarrow>
   SampleTree_loop sample (node # rest) visited = SampleTree_loop sample rest (visited @ [node])"
  by (subst SampleTree_loop.simps) simp

lemma SampleTree_loop_split:
  "sample node = Some (l, r) \<Longrightarrow>
   SampleTree_loop sample (node # rest) visited =
     SampleTree_loop sample (l # r # rest) (visited @ [node])"
  by (subst SampleTree_loop.simps) (simp add: AddSplitToModel_queue_def push_front_def)

lemma breadth_first_loop_Nil: "breadth_first_loop sample [] visited = Some visited"
  by (subst breadth_first_loop.simps) simp

lemma breadth_first_loop_no_split:
  "sample node = None \<Longrightarrow>
   breadth_first_loop sample (node # rest) visited =
     breadth_first_loop sample rest (visited @ [node])"
  by (subst breadth_first_loop.simps) simp

lemma breadth_first_loop_split:
  "sample node = Some (l, r) \<Longrightarrow>
   breadth_first_loop sample (node # rest) visited =
     breadth_first_loop sample (rest @ [l, r]) (visited @ [node])"
  by (subst breadth_first_loop.simps) (simp add: push_back_def)

text \<open>
  The loop on a deque that holds the roots of a forest: it takes every tree of the forest
  in turn and each of them in pre-order.
\<close>

lemma SampleTree_loop_forest:
  "\<forall>t \<in> set ts. grows sample t \<Longrightarrow>
   SampleTree_loop sample (map root_id ts) visited = Some (visited @ concat (map preorder ts))"
proof (induction ts arbitrary: visited
    rule: measure_induct_rule [where f = "\<lambda>ts. sum_list (map num_nodes ts)"])
  case (less ts)
  show ?case
  proof (cases ts)
    case Nil
    then show ?thesis by (simp add: SampleTree_loop_Nil)
  next
    case (Cons t rest)
    show ?thesis
    proof (cases t)
      case (Leaf node)
      with Cons less.prems have none: "sample node = None" and rest: "\<forall>t \<in> set rest. grows sample t"
        by simp_all
      have smaller: "sum_list (map num_nodes rest) < sum_list (map num_nodes ts)"
        using Cons Leaf by simp
      from less.IH [OF smaller rest, of "visited @ [node]"] none
      show ?thesis using Cons Leaf by (simp add: SampleTree_loop_no_split)
    next
      case (Split node l r)
      with Cons less.prems have some: "sample node = Some (root_id l, root_id r)"
        and sub: "\<forall>t \<in> set (l # r # rest). grows sample t"
        by simp_all
      have smaller: "sum_list (map num_nodes (l # r # rest)) < sum_list (map num_nodes ts)"
        using Cons Split by simp
      from less.IH [OF smaller sub, of "visited @ [node]"] some
      show ?thesis using Cons Split by (simp add: SampleTree_loop_split)
    qed
  qed
qed

text \<open>
  C5, as stated: the children are appended to the back of the queue, so every node at
  depth \<open>d\<close> is sampled before any node at depth \<open>d + 1\<close>. Take the outcomes that split the
  root \<open>0\<close> into \<open>1\<close> and \<open>2\<close> and node \<open>1\<close> into \<open>3\<close> and \<open>4\<close>. The code samples in the
  order \<open>0, 1, 3, 4, 2\<close>: nodes \<open>3\<close> and \<open>4\<close> at depth \<open>2\<close> come before node \<open>2\<close> at
  depth \<open>1\<close>. Breadth-first order is \<open>0, 1, 2, 3, 4\<close>.
\<close>

theorem SampleTree_not_breadth_first_counterexample:
  "SampleTree example_outcomes = Some [0, 1, 3, 4, 2] \<and>
   breadth_first example_outcomes = Some [0, 1, 2, 3, 4] \<and>
   SampleTree example_outcomes \<noteq> breadth_first example_outcomes"
proof -
  have s: "example_outcomes 0 = Some (1, 2)" "example_outcomes 1 = Some (3, 4)"
    "example_outcomes 2 = None" "example_outcomes 3 = None" "example_outcomes 4 = None"
    by (simp_all add: example_outcomes_def)
  have code: "SampleTree example_outcomes = Some [0, 1, 3, 4, 2]"
    unfolding SampleTree_def push_back_def kRoot_def append_Nil
    by (simp only: s SampleTree_loop_split SampleTree_loop_no_split SampleTree_loop_Nil
          append_Cons append_Nil)
  have spec: "breadth_first example_outcomes = Some [0, 1, 2, 3, 4]"
    unfolding breadth_first_def push_back_def kRoot_def append_Nil
    by (simp only: s breadth_first_loop_split breadth_first_loop_no_split breadth_first_loop_Nil
          append_Cons append_Nil)
  show ?thesis
    unfolding code spec by simp
qed

text \<open>
  C5, amended. The grow-from-root step processes the nodes depth-first, in pre-order. The
  nodes are held in a deque that starts with the root; when a node is split, its right and
  then its left child are pushed on the front, so the left child is sampled next and the
  whole left subtree before the right child. For outcomes that grow a finite tree \<open>t\<close>
  from the root, the loop ends and has sampled the nodes of \<open>t\<close> in pre-order.
\<close>

theorem SampleTree_preorder:
  assumes "grows sample t" and "root_id t = kRoot"
  shows "SampleTree sample = Some (preorder t)"
proof -
  from assms(1) have "\<forall>u \<in> set [t]. grows sample u" by simp
  from SampleTree_loop_forest [OF this, of "[]"] assms(2)
  show ?thesis by (simp add: SampleTree_def push_back_def)
qed

theorem SampleTree_preorder_witness:
  "grows example_outcomes example_grown \<and>
   root_id example_grown = kRoot \<and>
   SampleTree example_outcomes = Some [0, 1, 3, 4, 2]"
proof -
  have g: "grows example_outcomes example_grown"
    by (simp add: example_outcomes_def example_grown_def)
  have r: "root_id example_grown = kRoot"
    by (simp add: example_grown_def kRoot_def)
  from SampleTree_preorder [OF g r] g r show ?thesis
    by (simp add: example_grown_def)
qed

section \<open>Properties of the cutpoint enumeration\<close>










section \<open>Properties of the residual cycle\<close>

lemma floor_log2:
  assumes "2 powi e \<le> x" and "x < 2 powi (e + 1)"
  shows "\<lfloor>log 2 x\<rfloor> = e"
proof -
  have "(0::real) < 2 powi e" by simp
  with assms(1) have pos: "0 < x" by linarith
  have lower: "(2::real) powr real_of_int e = 2 powi e"
    by (simp add: powr_real_of_int')
  have upper: "(2::real) powr (real_of_int e + 1) = 2 powi (e + 1)"
    using powr_real_of_int' [of "2::real" "e + 1"] by (simp add: add.commute)
  show ?thesis
    using assms pos by (simp add: floor_log_eq_powr_iff lower upper)
qed

lemma floor_log2_less:
  assumes "0 < x" and "x < 2 powi j"
  shows "\<lfloor>log 2 x\<rfloor> < j"
proof -
  have "(2::real) powr real_of_int j = 2 powi j"
    by (simp add: powr_real_of_int')
  with assms have "log 2 x < real_of_int j"
    by (simp add: log_less_iff)
  then show ?thesis by linarith
qed

lemma round_half_even_int: "round_half_even (real_of_int m) = m"
  by (simp add: round_half_even_def)

lemma double_max_eq: "numeric_limits_double_max = (2 ^ 53 - 1) * 2 powi 971"
  by (simp add: numeric_limits_double_max_def)

text \<open>
  Rounding a value whose binade is known.
\<close>

lemma double_round_eval:
  assumes "x \<noteq> 0" and "2 powi e \<le> \<bar>x\<bar>" and "\<bar>x\<bar> < 2 powi (e + 1)" and "- 1022 \<le> e"
  shows "double_round x =
     (if \<bar>real_of_int (round_half_even (x / 2 powi (e - 52))) * 2 powi (e - 52)\<bar>
           > numeric_limits_double_max
      then Inl NotFinite
      else Inr (real_of_int (round_half_even (x / 2 powi (e - 52))) * 2 powi (e - 52)))"
proof -
  from floor_log2 [OF assms(2,3)] assms(4) have "max \<lfloor>log 2 \<bar>x\<bar>\<rfloor> (- 1022) = e"
    by simp
  then show ?thesis
    using assms(1) by (simp add: double_round_def Let_def)
qed

text \<open>
  Every binary64 value, \<open>m 2\<^sup>k\<close> with \<open>|m| < 2\<^sup>5\<^sup>3\<close> and \<open>-1074 \<le> k \<le> 971\<close>, is a
  \<open>double\<close> in the sense of \<open>is_double\<close>: rounding leaves it as it is.
\<close>

lemma double_round_representable:
  assumes x: "x = real_of_int m * 2 powi k" and m: "\<bar>m\<bar> < 2 ^ 53"
    and k: "- 1074 \<le> k" "k \<le> 971"
  shows "double_round x = Inr x"
proof (cases "m = 0")
  case True
  with x show ?thesis by (simp add: double_round_def)
next
  case False
  then have nz: "x \<noteq> 0" using x by simp
  define e where "e = max \<lfloor>log 2 \<bar>x\<bar>\<rfloor> (- 1022)"
  have absx: "\<bar>x\<bar> = real_of_int \<bar>m\<bar> * 2 powi k"
    using x by (simp add: abs_mult)
  from m have m_le: "\<bar>m\<bar> \<le> 2 ^ 53 - 1" by simp
  then have "real_of_int \<bar>m\<bar> \<le> real_of_int (2 ^ 53 - 1)"
    by (simp only: of_int_le_iff)
  then have m_real: "real_of_int \<bar>m\<bar> \<le> 2 ^ 53 - 1" by simp
  then have "real_of_int \<bar>m\<bar> < 2 ^ 53" by simp
  then have "\<bar>x\<bar> < 2 ^ 53 * 2 powi k"
    unfolding absx by simp
  also have "\<dots> = 2 powi (k + 53)"
    by (simp add: power_int_add)
  finally have "\<lfloor>log 2 \<bar>x\<bar>\<rfloor> < k + 53"
    using nz by (intro floor_log2_less) simp_all
  with k have e_le: "e \<le> k + 52"
    unfolding e_def by simp
  define n where "n = nat (k + 52 - e)"
  have kn: "k = (e - 52) + int n"
    using e_le by (simp add: n_def)
  have pw: "(2::real) powi k = 2 ^ n * 2 powi (e - 52)"
    by (subst kn) (simp add: power_int_add)
  have quot: "x / 2 powi (e - 52) = real_of_int (m * 2 ^ n)"
    unfolding x pw by simp
  have restore: "real_of_int (round_half_even (x / 2 powi (e - 52))) * 2 powi (e - 52) = x"
    unfolding quot round_half_even_int using x pw by simp
  have "(2::real) powi k \<le> 2 powi 971"
    using k by (intro power_int_increasing) simp_all
  with m_real have "\<bar>x\<bar> \<le> (2 ^ 53 - 1) * 2 powi 971"
    unfolding absx by (intro mult_mono) simp_all
  then have bound: "\<not> \<bar>x\<bar> > numeric_limits_double_max"
    by (simp only: double_max_eq not_less)
  show ?thesis
    using nz bound restore unfolding double_round_def Let_def e_def [symmetric] by simp
qed

lemma is_double_representable:
  "x = real_of_int m * 2 powi k \<Longrightarrow> \<bar>m\<bar> < 2 ^ 53 \<Longrightarrow> - 1074 \<le> k \<Longrightarrow> k \<le> 971 \<Longrightarrow>
   is_double x"
  unfolding is_double_def by (rule double_round_representable)

text \<open>
  \<open>1 + 2\<^sup>5\<^sup>3\<close> lies half way between the doubles \<open>2\<^sup>5\<^sup>3\<close> and \<open>2\<^sup>5\<^sup>3 + 2\<close> and is rounded
  to \<open>2\<^sup>5\<^sup>3\<close>, whose significand is even.
\<close>

lemma double_round_tie: "double_round (1 + 2 ^ 53) = Inr (2 ^ 53)"
proof -
  have "double_round (1 + 2 ^ 53) =
      Inr (real_of_int (round_half_even ((1 + 2 ^ 53) / 2 powi (53 - 52))) * 2 powi (53 - 52))"
    by (subst double_round_eval [where e = 53])
       (simp_all add: numeric_limits_double_max_def round_half_even_def Let_def)
  then show ?thesis
    by (simp add: round_half_even_def Let_def)
qed

lemma residual_add_back_append:
  "residual_add_back prediction (ks @ ls) d =
     (case residual_add_back prediction ks d of
        Inl e \<Rightarrow> Inl e
      | Inr d' \<Rightarrow> residual_add_back prediction ls d')"
  by (induction ks arbitrary: d) (auto split: sum.splits)

lemma residual_subtract_out_append:
  "residual_subtract_out prediction (ks @ ls) d =
     (case residual_subtract_out prediction ks d of
        Inl e \<Rightarrow> Inl e
      | Inr d' \<Rightarrow> residual_subtract_out prediction ls d')"
  by (induction ks arbitrary: d) (auto split: sum.splits)

text \<open>
  One update of row \<open>m\<close> of a residual vector whose first \<open>m\<close> rows have been updated.
\<close>

lemma residual_update_row:
  assumes "num_outcome d = 1" and "m < length rs"
    and "op (rs ! m) val = Inr (g m)"
  shows "residual_update op (d \<lparr> residuals := map g [0 ..< m] @ drop m rs \<rparr>) (int m) 0 val =
           Inr (d \<lparr> residuals := map g [0 ..< Suc m] @ drop (Suc m) rs \<rparr>)"
proof -
  let ?cur = "map g [0 ..< m] @ drop m rs"
  have len: "length ?cur = length rs" using assms(2) by simp
  have at: "?cur ! m = rs ! m" using assms(2) by (simp add: nth_append)
  have upd: "?cur[m := g m] = map g [0 ..< Suc m] @ drop (Suc m) rs"
    using assms(2) by (simp add: list_update_append Cons_nth_drop_Suc [symmetric])
  show ?thesis
    unfolding residual_update_def Let_def
    using assms len at upd by (simp del: upt_Suc)
qed

text \<open>
  The add-back loop over the first \<open>m\<close> rows, when row \<open>k\<close> receives the value \<open>g k\<close>;
  and the same for the subtraction loop.
\<close>

lemma residual_add_back_rows:
  assumes "num_outcome d = 1"
    and "\<forall>k < m. double_add (residuals d ! k) (prediction (int k)) = Inr (g k)"
  shows "m \<le> length (residuals d) \<Longrightarrow>
         residual_add_back prediction (map int [0 ..< m]) d =
           Inr (d \<lparr> residuals := map g [0 ..< m] @ drop m (residuals d) \<rparr>)"
  using assms(2)
proof (induction m)
  case 0
  then show ?case by simp
next
  case (Suc m)
  then have before: "residual_add_back prediction (map int [0 ..< m]) d =
      Inr (d \<lparr> residuals := map g [0 ..< m] @ drop m (residuals d) \<rparr>)"
    by simp
  from Suc.prems have m: "m < length (residuals d)"
    and row: "double_add (residuals d ! m) (prediction (int m)) = Inr (g m)"
    by simp_all
  from residual_update_row [where op = double_add and rs = "residuals d" and g = g,
      OF assms(1) m row]
  have step: "ResidualAdd (d \<lparr> residuals := map g [0 ..< m] @ drop m (residuals d) \<rparr>)
                (int m) 0 (prediction (int m)) =
              Inr (d \<lparr> residuals := map g [0 ..< Suc m] @ drop (Suc m) (residuals d) \<rparr>)"
    by (simp only: ResidualAdd_def)
  have "map int [0 ..< Suc m] = map int [0 ..< m] @ [int m]" by simp
  then show ?case
    by (simp only: residual_add_back_append before step sum.case residual_add_back.simps)
qed

lemma residual_subtract_out_rows:
  assumes "num_outcome d = 1"
    and "\<forall>k < m. double_sub (residuals d ! k) (prediction (int k)) = Inr (g k)"
  shows "m \<le> length (residuals d) \<Longrightarrow>
         residual_subtract_out prediction (map int [0 ..< m]) d =
           Inr (d \<lparr> residuals := map g [0 ..< m] @ drop m (residuals d) \<rparr>)"
  using assms(2)
proof (induction m)
  case 0
  then show ?case by simp
next
  case (Suc m)
  then have before: "residual_subtract_out prediction (map int [0 ..< m]) d =
      Inr (d \<lparr> residuals := map g [0 ..< m] @ drop m (residuals d) \<rparr>)"
    by simp
  from Suc.prems have m: "m < length (residuals d)"
    and row: "double_sub (residuals d ! m) (prediction (int m)) = Inr (g m)"
    by simp_all
  from residual_update_row [where op = double_sub and rs = "residuals d" and g = g,
      OF assms(1) m row]
  have step: "ResidualSubtract (d \<lparr> residuals := map g [0 ..< m] @ drop m (residuals d) \<rparr>)
                (int m) 0 (prediction (int m)) =
              Inr (d \<lparr> residuals := map g [0 ..< Suc m] @ drop (Suc m) (residuals d) \<rparr>)"
    by (simp only: ResidualSubtract_def)
  have "map int [0 ..< Suc m] = map int [0 ..< m] @ [int m]" by simp
  then show ?case
    by (simp only: residual_subtract_out_append before step sum.case
          residual_subtract_out.simps)
qed

text \<open>
  C8, as stated: after \<open>ResidualAdd\<close> of a prediction and \<open>ResidualSubtract\<close> of the same
  prediction the residual is bit-identical to its value before, for all \<open>double\<close>s. Take
  the residual \<open>1\<close> and the prediction \<open>2\<^sup>5\<^sup>3\<close>, both of them \<open>double\<close>s. The add-back
  rounds \<open>1 + 2\<^sup>5\<^sup>3\<close> to \<open>2\<^sup>5\<^sup>3\<close>, the subtraction gives \<open>0\<close>, and the residual of the
  row is \<open>0\<close> after the cycle, not \<open>1\<close>.
\<close>

theorem residual_cycle_rounds_counterexample:
  "is_double 1 \<and> is_double (2 ^ 53) \<and>
   ResidualValue one_row_dataset 0 = Inr 1 \<and>
   residual_cycle large_prediction 1 one_row_dataset
     = Inr \<lparr> residuals = [0], num_outcome = 1 \<rparr> \<and>
   ResidualValue \<lparr> residuals = [0], num_outcome = 1 \<rparr> 0 \<noteq> ResidualValue one_row_dataset 0"
proof -
  have one: "is_double 1"
    by (rule is_double_representable [of _ 1 0]) simp_all
  have big: "is_double (2 ^ 53)"
    by (rule is_double_representable [of _ 1 53]) simp_all
  have before: "ResidualValue one_row_dataset 0 = Inr 1"
    by (simp add: ResidualValue_def one_row_dataset_def)
  have sum: "double_add 1 (2 ^ 53) = Inr (2 ^ 53)"
    unfolding double_add_def by (rule double_round_tie)
  have diff: "double_sub (2 ^ 53) (2 ^ 53) = Inr 0"
    by (simp add: double_sub_def double_round_def)
  have add: "ResidualAdd one_row_dataset 0 0 (large_prediction 0)
      = Inr \<lparr> residuals = [2 ^ 53], num_outcome = 1 \<rparr>"
    unfolding ResidualAdd_def residual_update_def Let_def one_row_dataset_def
      large_prediction_def
    using sum by simp
  have sub: "ResidualSubtract \<lparr> residuals = [2 ^ 53], num_outcome = 1 \<rparr> 0 0 (large_prediction 0)
      = Inr \<lparr> residuals = [0], num_outcome = 1 \<rparr>"
    unfolding ResidualSubtract_def residual_update_def Let_def large_prediction_def
    using diff by simp
  have cycle: "residual_cycle large_prediction 1 one_row_dataset
      = Inr \<lparr> residuals = [0], num_outcome = 1 \<rparr>"
    unfolding residual_cycle_def using add sub by simp
  have after: "ResidualValue \<lparr> residuals = [0], num_outcome = 1 \<rparr> 0 \<noteq> ResidualValue one_row_dataset 0"
    by (simp add: ResidualValue_def one_row_dataset_def)
  from one big before cycle after show ?thesis by blast
qed

text \<open>
  C8, amended. Let the residuals of the first \<open>n\<close> rows be \<open>double\<close>s, one outcome per
  row, and let the tree be unchanged between the add-back and the subtraction, so that
  each row is given the same prediction twice. If for every row the sum of its residual
  and its prediction is itself a \<open>double\<close>, so that \<open>ResidualAdd\<close> does not round, then
  the cycle of \<open>ResidualAdd\<close> over all rows followed by \<open>ResidualSubtract\<close> over all rows
  runs to its end and leaves the residual vector equal to what it was before the cycle.
\<close>

theorem residual_cycle_exact:
  assumes "num_outcome d = 1" and "n \<le> length (residuals d)"
    and "\<forall>k < n. is_double (residuals d ! k)"
    and "\<forall>k < n. is_double (residuals d ! k + prediction (int k))"
  shows "residual_cycle prediction n d = Inr d"
proof -
  let ?rs = "residuals d"
  let ?sum = "\<lambda>k. ?rs ! k + prediction (int k)"
  let ?d1 = "d \<lparr> residuals := map ?sum [0 ..< n] @ drop n ?rs \<rparr>"
  have adds: "\<forall>k < n. double_add (?rs ! k) (prediction (int k)) = Inr (?sum k)"
    using assms(4) by (simp add: is_double_def double_add_def)
  from residual_add_back_rows [OF assms(1) adds assms(2)]
  have added: "residual_add_back prediction (map int [0 ..< n]) d = Inr ?d1" .
  have outcome1: "num_outcome ?d1 = 1" using assms(1) by simp
  have len1: "n \<le> length (residuals ?d1)" using assms(2) by simp
  have subs: "\<forall>k < n. double_sub (residuals ?d1 ! k) (prediction (int k)) = Inr (?rs ! k)"
  proof (intro allI impI)
    fix k assume k: "k < n"
    then have "residuals ?d1 ! k = ?sum k" by (simp add: nth_append)
    moreover from assms(3) k have "double_round (?rs ! k) = Inr (?rs ! k)"
      by (simp add: is_double_def)
    ultimately show "double_sub (residuals ?d1 ! k) (prediction (int k)) = Inr (?rs ! k)"
      by (simp add: double_sub_def)
  qed
  from residual_subtract_out_rows [OF outcome1 subs len1]
  have subtracted: "residual_subtract_out prediction (map int [0 ..< n]) ?d1 =
      Inr (?d1 \<lparr> residuals := map (\<lambda>k. ?rs ! k) [0 ..< n] @ drop n (residuals ?d1) \<rparr>)" .
  have "map (\<lambda>k. ?rs ! k) [0 ..< n] = take n ?rs"
    using assms(2) by (intro nth_equalityI) simp_all
  moreover have "drop n (residuals ?d1) = drop n ?rs" by simp
  ultimately have same: "?d1 \<lparr> residuals := map (\<lambda>k. ?rs ! k) [0 ..< n] @ drop n (residuals ?d1) \<rparr> = d"
    by simp
  show ?thesis
    unfolding residual_cycle_def added using subtracted same by simp
qed

theorem residual_cycle_exact_witness:
  "num_outcome two_row_dataset = 1 \<and> 2 \<le> length (residuals two_row_dataset) \<and>
   is_double (residuals two_row_dataset ! 0) \<and>
   is_double (residuals two_row_dataset ! 1) \<and>
   is_double (residuals two_row_dataset ! 0 + small_prediction 0) \<and>
   is_double (residuals two_row_dataset ! 1 + small_prediction 1) \<and>
   residual_cycle small_prediction 2 two_row_dataset
     = Inr \<lparr> residuals = [1, 3 / 2], num_outcome = 1 \<rparr>"
proof -
  have d1: "is_double 1"
    by (rule is_double_representable [of _ 1 0]) simp_all
  have d2: "is_double (3 / 2)"
    by (rule is_double_representable [of _ 3 "- 1"]) simp_all
  have d3: "is_double 3"
    by (rule is_double_representable [of _ 3 0]) simp_all
  have d4: "is_double (7 / 2)"
    by (rule is_double_representable [of _ 7 "- 1"]) simp_all
  have h1: "num_outcome two_row_dataset = 1"
    by (simp add: two_row_dataset_def)
  have h2: "2 \<le> length (residuals two_row_dataset)"
    by (simp add: two_row_dataset_def)
  have r0: "is_double (residuals two_row_dataset ! 0)"
    and r1: "is_double (residuals two_row_dataset ! 1)"
    using d1 d2 by (simp_all add: two_row_dataset_def)
  have s0: "is_double (residuals two_row_dataset ! 0 + small_prediction 0)"
    and s1: "is_double (residuals two_row_dataset ! 1 + small_prediction 1)"
    using d3 d4 by (simp_all add: two_row_dataset_def small_prediction_def)
  have h3: "\<forall>k < 2. is_double (residuals two_row_dataset ! k)"
    using r0 r1 by (auto simp: less_2_cases_iff)
  have h4: "\<forall>k < 2. is_double (residuals two_row_dataset ! k + small_prediction (int k))"
    using s0 s1 by (auto simp: less_2_cases_iff)
  from residual_cycle_exact [OF h1 h2 h3 h4]
  have "residual_cycle small_prediction 2 two_row_dataset
      = Inr \<lparr> residuals = [1, 3 / 2], num_outcome = 1 \<rparr>"
    by (simp add: two_row_dataset_def)
  with h1 h2 r0 r1 s0 s1 show ?thesis by blast
qed

end
